theory Spec2Isabelle
  imports Main "HOL-Library.Sublist"
begin

section \<open>The get-generated-content edge function (src/index.ts)\<close>

text \<open>
  The handler passed to \<^verbatim>\<open>serve\<close> is embedded as a pure function of the request and of
  the runtime it runs in. Strings are \<^typ>\<open>string\<close>; a \<^typ>\<open>char\<close> stands for one code unit
  below 256. Exceptions are values of a sum type (\<open>Inl\<close> is the thrown value), and the
  effects of one call (the line written by \<^verbatim>\<open>console.error\<close>, the prompt handed to the
  provider) are returned next to the response.
\<close>

subsection \<open>Values of the request body\<close>

text \<open>
  What \<^verbatim>\<open>await req.json()\<close> yields, and what the destructured variables hold: the JSON
  values, and \<^verbatim>\<open>undefined\<close> for a property that is not there. Numbers are kept abstract
  (type \<open>'n\<close>); the runtime renders them. An object is the list of its own properties,
  each key once, as \<^verbatim>\<open>JSON.parse\<close> builds it.
\<close>

datatype 'n jsval =
    JUndefined
  | JNull
  | JBool bool
  | JNum 'n
  | JStr string
  | JArr "'n jsval list"
  | JObj "(string \<times> 'n jsval) list"

text \<open>
  The \<^verbatim>\<open>TypeError\<close>s that the engine itself raises on the handler's path. Their message
  text belongs to the engine, so the runtime supplies it.
\<close>

datatype nullish = OfUndefined | OfNull

datatype fault =
    CannotDestructure nullish
  | CannotReadProperty nullish string
  | NotAFunction string
  | CannotConvertToPrimitive

text \<open>
  A thrown value, as far as the \<^verbatim>\<open>catch\<close> block looks at it (\<^verbatim>\<open>error.message\<close>):
  \<open>Error m\<close> is \<^verbatim>\<open>new Error(m)\<close> thrown by the handler, \<open>TypeError f\<close> is raised by the
  engine, and \<open>Rejected m\<close> is an error with message \<open>m\<close> coming out of \<^verbatim>\<open>req.json()\<close> or
  out of the provider client.
\<close>

datatype exn = Error string | TypeError fault | Rejected string

subsection \<open>The runtime and the request\<close>

text \<open>
  \<open>env_GOOGLE_AI_API_KEY\<close> is \<^verbatim>\<open>Deno.env.get('GOOGLE_AI_API_KEY')\<close> (\<open>None\<close> for
  \<^verbatim>\<open>undefined\<close>). \<open>generateContent rt key model prompt\<close> stands for the client built from
  \<open>key\<close>, \<^verbatim>\<open>model.generateContent(prompt)\<close> and \<^verbatim>\<open>result.response.text()\<close> together: the
  generated text, or the message of the error the client failed with.
\<close>

record 'n runtime =
  env_GOOGLE_AI_API_KEY :: "string option"
  generateContent :: "string \<Rightarrow> string \<Rightarrow> string \<Rightarrow> string + string"
  number_to_string :: "'n \<Rightarrow> string"
  fault_message :: "fault \<Rightarrow> string"

text \<open>
  Of the request the handler reads \<^verbatim>\<open>req.method\<close> and \<^verbatim>\<open>await req.json()\<close>; the latter
  either rejects (\<open>Inl\<close>, with the message of the rejection) or gives the parsed value.
\<close>

record 'n request =
  req_method :: string
  json :: "string + 'n jsval"

record response =
  body :: string
  status :: nat
  headers :: "(string \<times> string) list"

text \<open>
  \<^verbatim>\<open>new Response(body, { headers, status })\<close> for a string body; \<open>status\<close> is 200 when
  the init object leaves it out. The constructor gives a string body the type
  \<^verbatim>\<open>text/plain;charset=UTF-8\<close>: when the init headers hold no content type (header names
  compare without regard to case), it appends that one.
\<close>

definition lower_code :: "char \<Rightarrow> nat" where
  "lower_code c =
     (let n = (of_char c :: nat) in if 0x41 \<le> n \<and> n \<le> 0x5A then n + 0x20 else n)"

fun has_content_type :: "(string \<times> string) list \<Rightarrow> bool" where
  "has_content_type [] = False"
| "has_content_type ((name, val) # hs) =
     (map lower_code name = map of_char ''content-type'' \<or> has_content_type hs)"

definition Response :: "string \<Rightarrow> (string \<times> string) list \<Rightarrow> nat option \<Rightarrow> response" where
  "Response b hs st =
     \<lparr>body = b,
      status = (case st of None \<Rightarrow> 200 | Some n \<Rightarrow> n),
      headers =
        (if has_content_type hs then hs
         else hs @ [(''Content-Type'', ''text/plain;charset=UTF-8'')])\<rparr>"

record outcome =
  returned :: response
  console_error :: "string list list"
  generate_calls :: "(string \<times> string) list"

subsection \<open>Property reads and string coercion\<close>

text \<open>
  \<open>own_or_undefined v k\<close> is \<^verbatim>\<open>v.k\<close> for a value \<open>v\<close> other than \<^verbatim>\<open>null\<close> and
  \<^verbatim>\<open>undefined\<close> and a name \<open>k\<close> that no built-in prototype defines (the handler reads
  \<^verbatim>\<open>actionKey\<close>, \<^verbatim>\<open>chatHistory\<close>, \<^verbatim>\<open>sender\<close> and \<^verbatim>\<open>text\<close>).
\<close>

fun own_or_undefined :: "'n jsval \<Rightarrow> string \<Rightarrow> 'n jsval" where
  "own_or_undefined (JObj kvs) k = (case map_of kvs k of None \<Rightarrow> JUndefined | Some v \<Rightarrow> v)"
| "own_or_undefined _ k = JUndefined"

fun get_prop :: "'n jsval \<Rightarrow> string \<Rightarrow> fault + 'n jsval" where
  "get_prop JUndefined k = Inl (CannotReadProperty OfUndefined k)"
| "get_prop JNull k = Inl (CannotReadProperty OfNull k)"
| "get_prop v k = Inr (own_or_undefined v k)"

text \<open>\<^verbatim>\<open>Array.prototype.join\<close> on an array of strings.\<close>

fun join :: "string \<Rightarrow> string list \<Rightarrow> string" where
  "join sep [] = []"
| "join sep [s] = s"
| "join sep (s # t # ss) = s @ sep @ join sep (t # ss)"

text \<open>
  The coercion of a template literal, \<^verbatim>\<open>`${v}`\<close>. An array goes through
  \<^verbatim>\<open>Array.prototype.toString\<close>, that is \<^verbatim>\<open>join(',')\<close> with \<^verbatim>\<open>null\<close> and
  \<^verbatim>\<open>undefined\<close> elements rendered empty. A parsed object inherits
  \<^verbatim>\<open>Object.prototype.toString\<close> unless it has an own property \<^verbatim>\<open>toString\<close>, which is then
  no function; \<^verbatim>\<open>valueOf\<close> gives no primitive either, and the coercion throws.
\<close>

fun ToString :: "('n \<Rightarrow> string) \<Rightarrow> 'n jsval \<Rightarrow> fault + string"
  and elements_ToString :: "('n \<Rightarrow> string) \<Rightarrow> 'n jsval list \<Rightarrow> fault + string list" where
  "ToString ns JUndefined = Inr ''undefined''"
| "ToString ns JNull = Inr ''null''"
| "ToString ns (JBool b) = Inr (if b then ''true'' else ''false'')"
| "ToString ns (JNum n) = Inr (ns n)"
| "ToString ns (JStr s) = Inr s"
| "ToString ns (JArr vs) =
     (case elements_ToString ns vs of Inl f \<Rightarrow> Inl f | Inr ss \<Rightarrow> Inr (join '','' ss))"
| "ToString ns (JObj kvs) =
     (if ''toString'' \<in> fst ` set kvs then Inl CannotConvertToPrimitive
      else Inr ''[object Object]'')"
| "elements_ToString ns [] = Inr []"
| "elements_ToString ns (v # vs) =
     (case (if v = JUndefined \<or> v = JNull then Inr [] else ToString ns v) of
        Inl f \<Rightarrow> Inl f
      | Inr s \<Rightarrow>
          (case elements_ToString ns vs of Inl f \<Rightarrow> Inl f | Inr ss \<Rightarrow> Inr (s # ss)))"

subsection \<open>The steps of the try block\<close>

definition corsHeaders :: "(string \<times> string) list" where
  "corsHeaders =
     [(''Access-Control-Allow-Origin'', ''*''),
      (''Access-Control-Allow-Headers'', ''authorization, x-client-info, apikey, content-type'')]"

text \<open>\<^verbatim>\<open>const { actionKey, chatHistory } = await req.json()\<close>\<close>

definition destructure :: "'n request \<Rightarrow> exn + 'n jsval \<times> 'n jsval" where
  "destructure rq =
     (case json rq of
        Inl m \<Rightarrow> Inl (Rejected m)
      | Inr JUndefined \<Rightarrow> Inl (TypeError (CannotDestructure OfUndefined))
      | Inr JNull \<Rightarrow> Inl (TypeError (CannotDestructure OfNull))
      | Inr v \<Rightarrow> Inr (own_or_undefined v ''actionKey'', own_or_undefined v ''chatHistory''))"

text \<open>
  \<^verbatim>\<open>if (!googleApiKey) throw new Error('Missing Google AI API Key')\<close>: an unset
  variable and the empty string are both falsy.
\<close>

definition googleApiKey :: "'n runtime \<Rightarrow> exn + string" where
  "googleApiKey rt =
     (case env_GOOGLE_AI_API_KEY rt of
        None \<Rightarrow> Inl (Error ''Missing Google AI API Key'')
      | Some k \<Rightarrow> if k = [] then Inl (Error ''Missing Google AI API Key'') else Inr k)"

text \<open>The callback \<^verbatim>\<open>m => `${m.sender}: ${m.text}`\<close>.\<close>

definition message_line :: "('n \<Rightarrow> string) \<Rightarrow> 'n jsval \<Rightarrow> fault + string" where
  "message_line ns m =
     (case get_prop m ''sender'' of
        Inl f \<Rightarrow> Inl f
      | Inr a \<Rightarrow>
          (case ToString ns a of
             Inl f \<Rightarrow> Inl f
           | Inr s \<Rightarrow>
               (case get_prop m ''text'' of
                  Inl f \<Rightarrow> Inl f
                | Inr b \<Rightarrow>
                    (case ToString ns b of
                       Inl f \<Rightarrow> Inl f
                     | Inr t \<Rightarrow> Inr (s @ '': '' @ t)))))"

text \<open>\<^verbatim>\<open>Array.prototype.map\<close> with that callback: the first throw ends the loop.\<close>

fun map_message_line :: "('n \<Rightarrow> string) \<Rightarrow> 'n jsval list \<Rightarrow> fault + string list" where
  "map_message_line ns [] = Inr []"
| "map_message_line ns (m # ms) =
     (case message_line ns m of
        Inl f \<Rightarrow> Inl f
      | Inr l \<Rightarrow>
          (case map_message_line ns ms of Inl f \<Rightarrow> Inl f | Inr ls \<Rightarrow> Inr (l # ls)))"

text \<open>
  \<^verbatim>\<open>chatHistory.map(m => ...).join('\n')\<close>. Only an array has a callable \<^verbatim>\<open>map\<close>: a
  parsed object holds no function, and strings, numbers and booleans inherit none.
\<close>

fun conversationText :: "('n \<Rightarrow> string) \<Rightarrow> 'n jsval \<Rightarrow> exn + string" where
  "conversationText ns JUndefined = Inl (TypeError (CannotReadProperty OfUndefined ''map''))"
| "conversationText ns JNull = Inl (TypeError (CannotReadProperty OfNull ''map''))"
| "conversationText ns (JArr ms) =
     (case map_message_line ns ms of
        Inl f \<Rightarrow> Inl (TypeError f)
      | Inr ls \<Rightarrow> Inr (join ''\<newline>'' ls))"
| "conversationText ns _ = Inl (TypeError (NotAFunction ''chatHistory.map''))"

text \<open>
  The \<^verbatim>\<open>switch (actionKey)\<close>: \<^verbatim>\<open>case\<close> compares with \<^verbatim>\<open>===\<close>, so only a string can
  match; the default branch coerces the value into the message it throws.
\<close>

definition actionDescription :: "('n \<Rightarrow> string) \<Rightarrow> 'n jsval \<Rightarrow> exn + string" where
  "actionDescription ns actionKey =
     (if actionKey = JStr ''email_landlord'' then
        Inr ''Draft a polite but firm email to the landlord.''
      else if actionKey = JStr ''dispute_message'' then
        Inr ''Draft a clear, factual dispute message for a tenancy deposit scheme.''
      else if actionKey = JStr ''step_by_step_guide'' then
        Inr ''Create a simple, step-by-step guide on how to proceed.''
      else if actionKey = JStr ''email_council'' then
        Inr ''Draft a formal email to the local council's housing team.''
      else if actionKey = JStr ''call_council'' then
        Inr ''Create a bullet-point list of key points for a phone call to the council.''
      else
        (case ToString ns actionKey of
           Inl f \<Rightarrow> Inl (TypeError f)
         | Inr s \<Rightarrow> Inl (Error (''Unknown action key: '' @ s))))"

text \<open>The template literal \<^verbatim>\<open>prompt\<close>, line breaks and indentation included.\<close>

definition prompt :: "string \<Rightarrow> string \<Rightarrow> string" where
  "prompt description conversation =
     ''\<newline>      You are an expert AI assistant providing drafting support to UK tenants.''
   @ ''\<newline>      Based on the following conversation history, your task is to generate a specific document.''
   @ ''\<newline>''
   @ ''\<newline>      Action Required: '' @ description
   @ ''\<newline>''
   @ ''\<newline>      Conversation History:''
   @ ''\<newline>      '' @ conversation
   @ ''\<newline>''
   @ ''\<newline>      Instructions:''
   @ ''\<newline>      1. Review the entire conversation to understand the user's specific problem.''
   @ ''\<newline>      2. Generate the requested document with a professional and appropriate tone.''
   @ ''\<newline>      3. Use placeholders like '' @ [CHR 0x22] @ ''[Your Name]'' @ [CHR 0x22]
   @ '' or '' @ [CHR 0x22] @ ''[Date]'' @ [CHR 0x22] @ '' where needed.''
   @ ''\<newline>      4. IMPORTANT: Return ONLY the generated text. Do not add any conversational intros or summaries.''
   @ ''\<newline>    ''"

subsection \<open>JSON.stringify of the two response objects\<close>

definition hex_digit :: "nat \<Rightarrow> char" where
  "hex_digit d = ''0123456789abcdef'' ! d"

text \<open>
  \<^verbatim>\<open>QuoteJSONString\<close>, one code unit at a time: the short escapes, \<^verbatim>\<open>\u00xx\<close> for the
  other control characters, everything else as it is.
\<close>

definition escape :: "char \<Rightarrow> string" where
  "escape c =
     (if c = CHR 0x08 then [CHR 0x5C, CHR ''b'']
      else if c = CHR 0x09 then [CHR 0x5C, CHR ''t'']
      else if c = CHR 0x0A then [CHR 0x5C, CHR ''n'']
      else if c = CHR 0x0C then [CHR 0x5C, CHR ''f'']
      else if c = CHR 0x0D then [CHR 0x5C, CHR ''r'']
      else if c = CHR 0x22 then [CHR 0x5C, CHR 0x22]
      else if c = CHR 0x5C then [CHR 0x5C, CHR 0x5C]
      else if (of_char c :: nat) < 0x20 then
        [CHR 0x5C, CHR ''u'', CHR ''0'', CHR ''0'',
         hex_digit ((of_char c :: nat) div 16), hex_digit ((of_char c :: nat) mod 16)]
      else [c])"

definition QuoteJSONString :: "string \<Rightarrow> string" where
  "QuoteJSONString s = [CHR 0x22] @ concat (map escape s) @ [CHR 0x22]"

text \<open>\<^verbatim>\<open>JSON.stringify({ k: v })\<close> for a string \<open>v\<close>.\<close>

definition JSON_stringify :: "string \<Rightarrow> string \<Rightarrow> string" where
  "JSON_stringify k v = ''{'' @ QuoteJSONString k @ '':'' @ QuoteJSONString v @ ''}''"

subsection \<open>The handler\<close>

definition message :: "'n runtime \<Rightarrow> exn \<Rightarrow> string" where
  "message rt e =
     (case e of Error m \<Rightarrow> m | TypeError f \<Rightarrow> fault_message rt f | Rejected m \<Rightarrow> m)"

text \<open>
  The try block up to the composed prompt: body, key check, transcript, switch, in the
  order of the source. The result is the key and the prompt that go to the provider.
\<close>

definition compose :: "'n runtime \<Rightarrow> 'n request \<Rightarrow> exn + string \<times> string" where
  "compose rt rq =
     (case destructure rq of
        Inl e \<Rightarrow> Inl e
      | Inr (actionKey, chatHistory) \<Rightarrow>
          (case googleApiKey rt of
             Inl e \<Rightarrow> Inl e
           | Inr key \<Rightarrow>
               (case conversationText (number_to_string rt) chatHistory of
                  Inl e \<Rightarrow> Inl e
                | Inr conversation \<Rightarrow>
                    (case actionDescription (number_to_string rt) actionKey of
                       Inl e \<Rightarrow> Inl e
                     | Inr description \<Rightarrow> Inr (key, prompt description conversation)))))"

text \<open>The \<^verbatim>\<open>catch\<close> block.\<close>

definition caught :: "'n runtime \<Rightarrow> exn \<Rightarrow> (string \<times> string) list \<Rightarrow> outcome" where
  "caught rt e calls =
     \<lparr>returned =
        Response (JSON_stringify ''error'' (message rt e))
          (corsHeaders @ [(''Content-Type'', ''application/json'')]) (Some 500),
      console_error = [[''Error in get-generated-content:'', message rt e]],
      generate_calls = calls\<rparr>"

text \<open>
  The body of \<^verbatim>\<open>try\<close>: what it returns (the generated text) or throws, and the calls
  made to the provider, as pairs of model identifier and prompt.
\<close>

definition try_block ::
  "'n runtime \<Rightarrow> 'n request \<Rightarrow> (exn + string) \<times> (string \<times> string) list" where
  "try_block rt rq =
     (case compose rt rq of
        Inl e \<Rightarrow> (Inl e, [])
      | Inr (key, p) \<Rightarrow>
          (case generateContent rt key ''gemini-2.5-flash'' p of
             Inl m \<Rightarrow> (Inl (Rejected m), [(''gemini-2.5-flash'', p)])
           | Inr generatedText \<Rightarrow> (Inr generatedText, [(''gemini-2.5-flash'', p)])))"

definition handler :: "'n runtime \<Rightarrow> 'n request \<Rightarrow> outcome" where
  "handler rt rq =
     (if req_method rq = ''OPTIONS'' then
        \<lparr>returned = Response ''ok'' corsHeaders None, console_error = [], generate_calls = []\<rparr>
      else
        (case try_block rt rq of
           (Inl e, calls) \<Rightarrow> caught rt e calls
         | (Inr generatedText, calls) \<Rightarrow>
             \<lparr>returned =
                Response (JSON_stringify ''text'' generatedText)
                  (corsHeaders @ [(''Content-Type'', ''application/json'')]) None,
              console_error = [],
              generate_calls = calls\<rparr>))"

subsection \<open>Reading a response body back\<close>

text \<open>
  The round trip of a response body is stated against a reader of JSON text of the shape
  \<^verbatim>\<open>{"k":"v"}\<close>: one member, a string value, no white space. It follows the JSON grammar
  of string literals (the two-character escapes, \<^verbatim>\<open>\uXXXX\<close> for code units below 256,
  no raw control character) and accepts nothing else, so the text it accepts is JSON with
  exactly one key.
\<close>

definition hex_value :: "char \<Rightarrow> nat option" where
  "hex_value c =
     (let n = (of_char c :: nat) in
      if 0x30 \<le> n \<and> n \<le> 0x39 then Some (n - 0x30)
      else if 0x61 \<le> n \<and> n \<le> 0x66 then Some (n - 0x57)
      else if 0x41 \<le> n \<and> n \<le> 0x46 then Some (n - 0x37)
      else None)"

definition unescape :: "char \<Rightarrow> char option" where
  "unescape e =
     (if e = CHR 0x22 \<or> e = CHR 0x5C \<or> e = CHR ''/'' then Some e
      else if e = CHR ''b'' then Some (CHR 0x08)
      else if e = CHR ''f'' then Some (CHR 0x0C)
      else if e = CHR ''n'' then Some (CHR 0x0A)
      else if e = CHR ''r'' then Some (CHR 0x0D)
      else if e = CHR ''t'' then Some (CHR 0x09)
      else None)"

text \<open>The characters of a string literal up to its closing quote, and the input left.\<close>

fun read_chars :: "string \<Rightarrow> (string \<times> string) option" where
  "read_chars [] = None"
| "read_chars (c # cs) =
     (if c = CHR 0x22 then Some ([], cs)
      else if c = CHR 0x5C then
        (case cs of
           [] \<Rightarrow> None
         | e # r \<Rightarrow>
             if e = CHR ''u'' then
               (case r of
                  h3 # h2 # h1 # h0 # r' \<Rightarrow>
                    (case (hex_value h3, hex_value h2, hex_value h1, hex_value h0) of
                       (Some d3, Some d2, Some d1, Some d0) \<Rightarrow>
                         if d3 = 0 \<and> d2 = 0 then
                           map_option (apfst ((#) (char_of (16 * d1 + d0)))) (read_chars r')
                         else None
                     | _ \<Rightarrow> None)
                | _ \<Rightarrow> None)
             else
               (case unescape e of
                  None \<Rightarrow> None
                | Some x \<Rightarrow> map_option (apfst ((#) x)) (read_chars r)))
      else if (of_char c :: nat) < 0x20 then None
      else map_option (apfst ((#) c)) (read_chars cs))"

definition read_string :: "string \<Rightarrow> (string \<times> string) option" where
  "read_string s =
     (case s of [] \<Rightarrow> None | c # cs \<Rightarrow> if c = CHR 0x22 then read_chars cs else None)"

definition JSON_parse_member :: "string \<Rightarrow> (string \<times> string) option" where
  "JSON_parse_member s =
     (case s of
        [] \<Rightarrow> None
      | b # s1 \<Rightarrow>
          if b = CHR ''{'' then
            (case read_string s1 of
               None \<Rightarrow> None
             | Some (k, s2) \<Rightarrow>
                 (case s2 of
                    [] \<Rightarrow> None
                  | c # s3 \<Rightarrow>
                      if c = CHR '':'' then
                        (case read_string s3 of
                           None \<Rightarrow> None
                         | Some (v, s4) \<Rightarrow> if s4 = ''}'' then Some (k, v) else None)
                      else None))
          else None)"

subsection \<open>A runtime to run the handler in\<close>

text \<open>
  The examples below evaluate the handler in a runtime whose key is set, whose provider
  answers every prompt with the same text, whose only number is zero, and whose engine
  words its type errors as follows.
\<close>

fun sample_fault_message :: "fault \<Rightarrow> string" where
  "sample_fault_message (CannotDestructure OfUndefined) =
     ''Cannot destructure property 'actionKey' of '(intermediate value)' as it is undefined.''"
| "sample_fault_message (CannotDestructure OfNull) =
     ''Cannot destructure property 'actionKey' of '(intermediate value)' as it is null.''"
| "sample_fault_message (CannotReadProperty OfUndefined k) =
     ''Cannot read properties of undefined (reading '' @ [CHR 0x27] @ k @ [CHR 0x27] @ '')''"
| "sample_fault_message (CannotReadProperty OfNull k) =
     ''Cannot read properties of null (reading '' @ [CHR 0x27] @ k @ [CHR 0x27] @ '')''"
| "sample_fault_message (NotAFunction f) = f @ '' is not a function''"
| "sample_fault_message CannotConvertToPrimitive = ''Cannot convert object to primitive value''"

definition sample_runtime :: "unit runtime" where
  "sample_runtime =
     \<lparr>env_GOOGLE_AI_API_KEY = Some ''sample-key'',
      generateContent = (\<lambda>key model p. Inr ''Dear [Landlord Name],''),
      number_to_string = (\<lambda>n. ''0''),
      fault_message = sample_fault_message\<rparr>"

text \<open>The same runtime with a provider that fails.\<close>

definition failing_provider_runtime :: "unit runtime" where
  "failing_provider_runtime =
     sample_runtime\<lparr>generateContent := (\<lambda>key model p. Inl ''fetch failed'')\<rparr>"

text \<open>
  The two request bodies of the specification's end-to-end scenarios:
  \<^verbatim>\<open>{actionKey:"email_landlord", chatHistory:[{sender:"user", text:"My landlord won't fix the heating"}]}\<close>
  and \<^verbatim>\<open>{actionKey:"bogus", chatHistory:[]}\<close>.
\<close>

definition landlord_request :: "unit request" where
  "landlord_request =
     \<lparr>req_method = ''POST'',
      json = Inr (JObj [(''actionKey'', JStr ''email_landlord''),
        (''chatHistory'',
         JArr [JObj [(''sender'', JStr ''user''),
                     (''text'', JStr ''My landlord won't fix the heating'')]])])\<rparr>"

definition bogus_request :: "unit request" where
  "bogus_request =
     \<lparr>req_method = ''POST'',
      json = Inr (JObj [(''actionKey'', JStr ''bogus''), (''chatHistory'', JArr [])])\<rparr>"

section \<open>Properties\<close>

subsection \<open>Auxiliary facts\<close>

lemma hex_value_hex_digit: "d < 16 \<Longrightarrow> hex_value (hex_digit d) = Some d"
proof -
  assume "d < 16"
  then have "d = 0 \<or> d = 1 \<or> d = 2 \<or> d = 3 \<or> d = 4 \<or> d = 5 \<or> d = 6 \<or> d = 7 \<or> d = 8
      \<or> d = 9 \<or> d = 10 \<or> d = 11 \<or> d = 12 \<or> d = 13 \<or> d = 14 \<or> d = 15"
    by presburger
  then show ?thesis
    by (elim disjE) (simp_all add: hex_value_def hex_digit_def)
qed

lemma read_chars_escape:
  "read_chars (escape c @ rest) = map_option (apfst ((#) c)) (read_chars rest)"
proof (cases "c \<in> {CHR 0x08, CHR 0x09, CHR 0x0A, CHR 0x0C, CHR 0x0D, CHR 0x22, CHR 0x5C}")
  case True
  then show ?thesis by (auto simp: escape_def unescape_def)
next
  case False
  note plain = False
  show ?thesis
  proof (cases "(of_char c :: nat) < 0x20")
    case True
    have hi: "(of_char c :: nat) div 16 < 16" and lo: "(of_char c :: nat) mod 16 < 16"
      using True by auto
    have e: "escape c = [CHR 0x5C, CHR ''u'', CHR ''0'', CHR ''0'',
         hex_digit ((of_char c :: nat) div 16), hex_digit ((of_char c :: nat) mod 16)]"
      using plain True by (simp add: escape_def)
    have z: "hex_value CHR ''0'' = Some 0" by (simp add: hex_value_def)
    show ?thesis
      by (simp add: e z hex_value_hex_digit[OF hi] hex_value_hex_digit[OF lo])
  next
    case False
    then show ?thesis using plain by (simp add: escape_def)
  qed
qed

lemma read_chars_quoted:
  "read_chars (concat (map escape s) @ CHR 0x22 # rest) = Some (s, rest)"
  by (induction s) (simp_all add: read_chars_escape)

lemma read_string_quoted: "read_string (QuoteJSONString s @ rest) = Some (s, rest)"
  using read_chars_quoted[of s rest] by (simp add: read_string_def QuoteJSONString_def)

lemma JSON_parse_member_stringify: "JSON_parse_member (JSON_stringify k v) = Some (k, v)"
  using read_string_quoted[of k "'':'' @ QuoteJSONString v @ ''}''"]
    read_string_quoted[of v "''}''"]
  by (simp add: JSON_parse_member_def JSON_stringify_def)

lemma destructure_value:
  assumes "json rq = Inr v" and "v \<noteq> JUndefined" and "v \<noteq> JNull"
  shows "destructure rq =
    Inr (own_or_undefined v ''actionKey'', own_or_undefined v ''chatHistory'')"
  using assms by (cases v) (simp_all add: destructure_def)

lemma own_JStr_not_nullish:
  "own_or_undefined v k = JStr s \<Longrightarrow> v \<noteq> JUndefined \<and> v \<noteq> JNull"
  by (cases v) simp_all

lemma googleApiKey_present:
  "env_GOOGLE_AI_API_KEY rt = Some key \<Longrightarrow> key \<noteq> [] \<Longrightarrow> googleApiKey rt = Inr key"
  by (simp add: googleApiKey_def)

lemma googleApiKey_absent:
  "env_GOOGLE_AI_API_KEY rt = None \<or> env_GOOGLE_AI_API_KEY rt = Some [] \<Longrightarrow>
     googleApiKey rt = Inl (Error ''Missing Google AI API Key'')"
  by (auto simp: googleApiKey_def)

lemma compose_valid:
  assumes "json rq = Inr v" and "v \<noteq> JUndefined" and "v \<noteq> JNull"
    and "env_GOOGLE_AI_API_KEY rt = Some key" and "key \<noteq> []"
    and "conversationText (number_to_string rt) (own_or_undefined v ''chatHistory'') = Inr c"
    and "actionDescription (number_to_string rt) (own_or_undefined v ''actionKey'') = Inr d"
  shows "compose rt rq = Inr (key, prompt d c)"
  using assms by (simp add: compose_def destructure_value googleApiKey_present)

lemma compose_action_fails:
  assumes "json rq = Inr v" and "v \<noteq> JUndefined" and "v \<noteq> JNull"
    and "env_GOOGLE_AI_API_KEY rt = Some key" and "key \<noteq> []"
    and "conversationText (number_to_string rt) (own_or_undefined v ''chatHistory'') = Inr c"
    and "actionDescription (number_to_string rt) (own_or_undefined v ''actionKey'') = Inl e"
  shows "compose rt rq = Inl e"
  using assms by (simp add: compose_def destructure_value googleApiKey_present)

lemma compose_key_absent:
  assumes "json rq = Inr v" and "v \<noteq> JUndefined" and "v \<noteq> JNull"
    and "env_GOOGLE_AI_API_KEY rt = None \<or> env_GOOGLE_AI_API_KEY rt = Some []"
  shows "compose rt rq = Inl (Error ''Missing Google AI API Key'')"
  using assms(1-3) googleApiKey_absent[OF assms(4)]
  by (simp add: compose_def destructure_value)

lemma handler_caught:
  assumes "req_method rq \<noteq> ''OPTIONS''" and "compose rt rq = Inl e"
  shows "handler rt rq = caught rt e []"
  using assms by (simp add: handler_def try_block_def)

lemma message_line_strings:
  assumes "own_or_undefined m ''sender'' = JStr s" and "own_or_undefined m ''text'' = JStr t"
  shows "message_line ns m = Inr (s @ '': '' @ t)"
  using assms by (cases m) (simp_all add: message_line_def)

lemma sublistI: "ys = ps @ xs @ ss \<Longrightarrow> sublist xs ys"
  by (auto simp: sublist_def)

lemma Response_json:
  "Response b (corsHeaders @ [(''Content-Type'', ''application/json'')]) st =
     \<lparr>body = b, status = (case st of None \<Rightarrow> 200 | Some n \<Rightarrow> n),
      headers = corsHeaders @ [(''Content-Type'', ''application/json'')]\<rparr>"
  by (simp add: Response_def corsHeaders_def lower_code_def)

lemma Response_preflight:
  "Response b corsHeaders st =
     \<lparr>body = b, status = (case st of None \<Rightarrow> 200 | Some n \<Rightarrow> n),
      headers = corsHeaders @ [(''Content-Type'', ''text/plain;charset=UTF-8'')]\<rparr>"
  by (simp add: Response_def corsHeaders_def lower_code_def)

lemma returned_caught:
  "returned (caught rt e calls) =
     \<lparr>body = JSON_stringify ''error'' (message rt e), status = 500,
      headers = corsHeaders @ [(''Content-Type'', ''application/json'')]\<rparr>"
  by (simp add: caught_def Response_json)

lemma join_separated:
  "join sep ls = (case ls of [] \<Rightarrow> [] | l # ls' \<Rightarrow> l @ concat (map (\<lambda>x. sep @ x) ls'))"
  by (induction sep ls rule: join.induct) simp_all

subsection \<open>The action table\<close>

text \<open>
  C1. For each of the five action keys email_landlord, dispute_message,
  step_by_step_guide, email_council and call_council, the instruction that the switch
  resolves is, character for character, the instruction of the specification's table.
\<close>

theorem action_table:
  "actionDescription ns (JStr ''email_landlord'') =
     Inr ''Draft a polite but firm email to the landlord.''
   \<and> actionDescription ns (JStr ''dispute_message'') =
     Inr ''Draft a clear, factual dispute message for a tenancy deposit scheme.''
   \<and> actionDescription ns (JStr ''step_by_step_guide'') =
     Inr ''Create a simple, step-by-step guide on how to proceed.''
   \<and> actionDescription ns (JStr ''email_council'') =
     Inr ''Draft a formal email to the local council's housing team.''
   \<and> actionDescription ns (JStr ''call_council'') =
     Inr ''Create a bullet-point list of key points for a phone call to the council.''"
  by (simp add: actionDescription_def)

text \<open>
  C2. A request on the main path whose actionKey is a string outside the table, with the
  API key set and a chatHistory from which the transcript can be built, is answered with
  status 500 and the JSON body whose only member, error, is the text
  "Unknown action key: " followed by the key itself.
\<close>

theorem unknown_action_key:
  assumes "req_method rq \<noteq> ''OPTIONS''"
    and "json rq = Inr v"
    and "own_or_undefined v ''actionKey'' = JStr k"
    and "k \<notin> {''email_landlord'', ''dispute_message'', ''step_by_step_guide'',
               ''email_council'', ''call_council''}"
    and "env_GOOGLE_AI_API_KEY rt = Some key" and "key \<noteq> []"
    and "conversationText (number_to_string rt) (own_or_undefined v ''chatHistory'') = Inr c"
  shows "returned (handler rt rq) =
           \<lparr>body = JSON_stringify ''error'' (''Unknown action key: '' @ k), status = 500,
            headers = corsHeaders @ [(''Content-Type'', ''application/json'')]\<rparr>
         \<and> JSON_parse_member (body (returned (handler rt rq))) =
             Some (''error'', ''Unknown action key: '' @ k)"
proof -
  have v: "v \<noteq> JUndefined" "v \<noteq> JNull"
    using own_JStr_not_nullish[OF assms(3)] by simp_all
  have "actionDescription (number_to_string rt) (own_or_undefined v ''actionKey'') =
      Inl (Error (''Unknown action key: '' @ k))"
    using assms(3,4) by (simp add: actionDescription_def)
  then have "compose rt rq = Inl (Error (''Unknown action key: '' @ k))"
    using compose_action_fails[OF assms(2) v assms(5,6,7)] by simp
  then have "handler rt rq = caught rt (Error (''Unknown action key: '' @ k)) []"
    using handler_caught[OF assms(1)] by simp
  then show ?thesis
    by (simp add: returned_caught message_def JSON_parse_member_stringify)
qed

text \<open>
  The scenario of the specification: the body \<^verbatim>\<open>{actionKey:"bogus", chatHistory:[]}\<close> gives
  status 500 and the body \<^verbatim>\<open>{"error":"Unknown action key: bogus"}\<close>.
\<close>

theorem unknown_action_key_bogus:
  "req_method bogus_request \<noteq> ''OPTIONS''
   \<and> json bogus_request =
       Inr (JObj [(''actionKey'', JStr ''bogus''), (''chatHistory'', JArr [])])
   \<and> ''bogus'' \<notin> {''email_landlord'', ''dispute_message'', ''step_by_step_guide'',
               ''email_council'', ''call_council''}
   \<and> env_GOOGLE_AI_API_KEY sample_runtime = Some ''sample-key''
   \<and> conversationText (number_to_string sample_runtime) (JArr []) = Inr []
   \<and> status (returned (handler sample_runtime bogus_request)) = 500
   \<and> body (returned (handler sample_runtime bogus_request)) =
      ''{'' @ [CHR 0x22] @ ''error'' @ [CHR 0x22] @ '':'' @ [CHR 0x22]
        @ ''Unknown action key: bogus'' @ [CHR 0x22] @ ''}''"
  using unknown_action_key[of bogus_request
      "JObj [(''actionKey'', JStr ''bogus''), (''chatHistory'', JArr [])]"
      "''bogus''" sample_runtime "''sample-key''" "[]"]
  by (simp add: bogus_request_def sample_runtime_def JSON_stringify_def QuoteJSONString_def
      escape_def)

subsection \<open>The transcript\<close>

text \<open>
  C3. For every chatHistory array whose messages carry a string sender and a string text,
  the transcript is made of the lines "sender: text", one per message and in the order
  of the input, with one newline between two neighbours: the empty string for no
  message, and otherwise the first line followed, for each later message in turn, by a
  newline and its line. The example of the specification, the messages (user, Hi) and
  (bot, Hello), gives "user: Hi", a newline, "bot: Hello".
\<close>

theorem transcript_format:
  assumes "list_all2 (\<lambda>m l. own_or_undefined m ''sender'' = JStr (fst l)
              \<and> own_or_undefined m ''text'' = JStr (snd l)) chatHistory msgs"
  shows "conversationText ns (JArr chatHistory) =
           Inr (case map (\<lambda>l. fst l @ '': '' @ snd l) msgs of
                  [] \<Rightarrow> []
                | first # later \<Rightarrow> first @ concat (map (\<lambda>line. ''\<newline>'' @ line) later))"
proof -
  from assms
  have "map_message_line ns chatHistory = Inr (map (\<lambda>l. fst l @ '': '' @ snd l) msgs)"
    by (induction rule: list_all2_induct) (simp_all add: message_line_strings)
  then have "conversationText ns (JArr chatHistory) =
      Inr (join ''\<newline>'' (map (\<lambda>l. fst l @ '': '' @ snd l) msgs))"
    by simp
  then show ?thesis
    by (simp only: join_separated)
qed

text \<open>
  The example of the specification, and a conversation of three messages with a field
  besides sender and text and the fields in another order.
\<close>

theorem transcript_format_example:
  "list_all2 (\<lambda>m l. own_or_undefined m ''sender'' = JStr (fst l)
              \<and> own_or_undefined m ''text'' = JStr (snd l))
     [JObj [(''sender'', JStr ''user''), (''text'', JStr ''Hi'')],
      JObj [(''sender'', JStr ''bot''), (''text'', JStr ''Hello'')] :: unit jsval]
     [(''user'', ''Hi''), (''bot'', ''Hello'')]
   \<and> conversationText (number_to_string sample_runtime)
       (JArr [JObj [(''sender'', JStr ''user''), (''text'', JStr ''Hi'')],
              JObj [(''sender'', JStr ''bot''), (''text'', JStr ''Hello'')]]) =
     Inr ''user: Hi\<newline>bot: Hello''
   \<and> list_all2 (\<lambda>m l. own_or_undefined m ''sender'' = JStr (fst l)
              \<and> own_or_undefined m ''text'' = JStr (snd l))
     [JObj [(''sender'', JStr ''user''), (''text'', JStr ''No heating'')],
      JObj [(''text'', JStr ''Since when?''), (''sender'', JStr ''bot'')],
      JObj [(''id'', JNum ()), (''sender'', JStr ''user''), (''text'', JStr ''May'')]]
     [(''user'', ''No heating''), (''bot'', ''Since when?''), (''user'', ''May'')]
   \<and> conversationText (number_to_string sample_runtime)
       (JArr [JObj [(''sender'', JStr ''user''), (''text'', JStr ''No heating'')],
              JObj [(''text'', JStr ''Since when?''), (''sender'', JStr ''bot'')],
              JObj [(''id'', JNum ()), (''sender'', JStr ''user''), (''text'', JStr ''May'')]]) =
     Inr ''user: No heating\<newline>bot: Since when?\<newline>user: May''"
proof -
  have two: "list_all2 (\<lambda>m l. own_or_undefined m ''sender'' = JStr (fst l)
              \<and> own_or_undefined m ''text'' = JStr (snd l))
     [JObj [(''sender'', JStr ''user''), (''text'', JStr ''Hi'')],
      JObj [(''sender'', JStr ''bot''), (''text'', JStr ''Hello'')] :: unit jsval]
     [(''user'', ''Hi''), (''bot'', ''Hello'')]"
    by simp
  have three: "list_all2 (\<lambda>m l. own_or_undefined m ''sender'' = JStr (fst l)
              \<and> own_or_undefined m ''text'' = JStr (snd l))
     [JObj [(''sender'', JStr ''user''), (''text'', JStr ''No heating'')],
      JObj [(''text'', JStr ''Since when?''), (''sender'', JStr ''bot'')],
      JObj [(''id'', JNum ()), (''sender'', JStr ''user''), (''text'', JStr ''May'')]]
     [(''user'', ''No heating''), (''bot'', ''Since when?''), (''user'', ''May'')]"
    by simp
  have "conversationText (number_to_string sample_runtime)
       (JArr [JObj [(''sender'', JStr ''user''), (''text'', JStr ''Hi'')],
              JObj [(''sender'', JStr ''bot''), (''text'', JStr ''Hello'')]]) =
     Inr ''user: Hi\<newline>bot: Hello''"
    using transcript_format[OF two, of "number_to_string sample_runtime"] by simp
  moreover have "conversationText (number_to_string sample_runtime)
       (JArr [JObj [(''sender'', JStr ''user''), (''text'', JStr ''No heating'')],
              JObj [(''text'', JStr ''Since when?''), (''sender'', JStr ''bot'')],
              JObj [(''id'', JNum ()), (''sender'', JStr ''user''), (''text'', JStr ''May'')]]) =
     Inr ''user: No heating\<newline>bot: Since when?\<newline>user: May''"
    using transcript_format[OF three, of "number_to_string sample_runtime"] by simp
  ultimately show ?thesis using two three by blast
qed

subsection \<open>The preflight request\<close>

text \<open>
  C4, as the specification states it: an OPTIONS request is answered with an empty body.
  It is not: the body of the answer is the two characters "ok".
\<close>

theorem preflight_body_not_empty:
  "req_method \<lparr>req_method = ''OPTIONS'', json = Inr (JNull :: unit jsval)\<rparr> = ''OPTIONS''
   \<and> body (returned (handler sample_runtime
        \<lparr>req_method = ''OPTIONS'', json = Inr JNull\<rparr>)) = ''ok''
   \<and> body (returned (handler sample_runtime
        \<lparr>req_method = ''OPTIONS'', json = Inr JNull\<rparr>)) \<noteq> []"
  by (simp add: handler_def Response_preflight)

text \<open>
  C4, amended. Every OPTIONS request, whatever its body and whatever the runtime, is
  answered with status 200, the body "ok" and the two cross-origin headers (any origin;
  the headers authorization, x-client-info, apikey, content-type), after which comes the
  content type text/plain;charset=UTF-8 that the Response constructor gives a string
  body; nothing is logged and the provider is not called.
\<close>

theorem preflight:
  assumes "req_method rq = ''OPTIONS''"
  shows "handler rt rq =
     \<lparr>returned =
        \<lparr>body = ''ok'', status = 200,
         headers =
           [(''Access-Control-Allow-Origin'', ''*''),
            (''Access-Control-Allow-Headers'',
             ''authorization, x-client-info, apikey, content-type''),
            (''Content-Type'', ''text/plain;charset=UTF-8'')]\<rparr>,
      console_error = [], generate_calls = []\<rparr>"
  using assms by (simp add: handler_def Response_def lower_code_def corsHeaders_def)

theorem preflight_witness:
  "req_method \<lparr>req_method = ''OPTIONS'', json = Inl ''Unexpected end of JSON input''\<rparr>
     = ''OPTIONS''
   \<and> handler failing_provider_runtime
        \<lparr>req_method = ''OPTIONS'', json = Inl ''Unexpected end of JSON input''\<rparr> =
     \<lparr>returned =
        \<lparr>body = ''ok'', status = 200,
         headers =
           [(''Access-Control-Allow-Origin'', ''*''),
            (''Access-Control-Allow-Headers'',
             ''authorization, x-client-info, apikey, content-type''),
            (''Content-Type'', ''text/plain;charset=UTF-8'')]\<rparr>,
      console_error = [], generate_calls = []\<rparr>"
  using preflight[of
      "\<lparr>req_method = ''OPTIONS'', json = Inl ''Unexpected end of JSON input''\<rparr>"
      failing_provider_runtime]
  by simp

subsection \<open>The API key\<close>

text \<open>
  C5. When the API key is not configured (the variable is unset, or set to the empty
  string), every request on the main path whose body parses to a JSON value that can be
  destructured is answered with status 500 and the error message
  "Missing Google AI API Key", whatever actionKey and chatHistory it supplies.
\<close>

theorem missing_api_key:
  assumes "req_method rq \<noteq> ''OPTIONS''"
    and "json rq = Inr v" and "v \<noteq> JUndefined" and "v \<noteq> JNull"
    and "env_GOOGLE_AI_API_KEY rt = None \<or> env_GOOGLE_AI_API_KEY rt = Some []"
  shows "returned (handler rt rq) =
           \<lparr>body = JSON_stringify ''error'' ''Missing Google AI API Key'', status = 500,
            headers = corsHeaders @ [(''Content-Type'', ''application/json'')]\<rparr>
         \<and> JSON_parse_member (body (returned (handler rt rq))) =
             Some (''error'', ''Missing Google AI API Key'')"
  using handler_caught[OF assms(1) compose_key_absent[OF assms(2-5)]]
  by (simp add: returned_caught message_def JSON_parse_member_stringify)

theorem missing_api_key_witness:
  "req_method landlord_request \<noteq> ''OPTIONS''
   \<and> json landlord_request =
       Inr (JObj [(''actionKey'', JStr ''email_landlord''),
         (''chatHistory'',
          JArr [JObj [(''sender'', JStr ''user''),
                      (''text'', JStr ''My landlord won't fix the heating'')]])])
   \<and> env_GOOGLE_AI_API_KEY (sample_runtime\<lparr>env_GOOGLE_AI_API_KEY := None\<rparr>) = None
   \<and> status (returned (handler (sample_runtime\<lparr>env_GOOGLE_AI_API_KEY := None\<rparr>)
        landlord_request)) = 500
   \<and> body (returned (handler (sample_runtime\<lparr>env_GOOGLE_AI_API_KEY := None\<rparr>)
        landlord_request)) =
      ''{'' @ [CHR 0x22] @ ''error'' @ [CHR 0x22] @ '':'' @ [CHR 0x22]
        @ ''Missing Google AI API Key'' @ [CHR 0x22] @ ''}''"
  using missing_api_key[of landlord_request
      "JObj [(''actionKey'', JStr ''email_landlord''),
         (''chatHistory'',
          JArr [JObj [(''sender'', JStr ''user''),
                      (''text'', JStr ''My landlord won't fix the heating'')]])]"
      "sample_runtime\<lparr>env_GOOGLE_AI_API_KEY := None\<rparr>"]
  by (simp add: landlord_request_def sample_runtime_def JSON_stringify_def
      QuoteJSONString_def escape_def)

subsection \<open>The catch block\<close>

lemma handler_try_failed:
  assumes "req_method rq \<noteq> ''OPTIONS''" and "fst (try_block rt rq) = Inl e"
  shows "handler rt rq = caught rt e (snd (try_block rt rq))"
  using assms by (cases "try_block rt rq") (simp add: handler_def)

text \<open>
  C6. On the main path, whatever the try block throws (the rejection of a malformed body,
  the missing key, the unknown action, a failure of the provider, a type error of the
  engine) is caught: its message is logged after the text
  "Error in get-generated-content:", and the response has status 500, the three headers
  Access-Control-Allow-Origin, Access-Control-Allow-Headers and Content-Type, and the JSON
  body whose only member, error, is that message. The status does not depend on the error.
\<close>

theorem errors_caught:
  assumes "req_method rq \<noteq> ''OPTIONS''" and "fst (try_block rt rq) = Inl e"
  shows "returned (handler rt rq) =
           \<lparr>body = JSON_stringify ''error'' (message rt e), status = 500,
            headers =
              [(''Access-Control-Allow-Origin'', ''*''),
               (''Access-Control-Allow-Headers'',
                ''authorization, x-client-info, apikey, content-type''),
               (''Content-Type'', ''application/json'')]\<rparr>
         \<and> console_error (handler rt rq) =
             [[''Error in get-generated-content:'', message rt e]]
         \<and> JSON_parse_member (body (returned (handler rt rq))) = Some (''error'', message rt e)"
  using handler_try_failed[OF assms]
  by (simp add: caught_def Response_def lower_code_def corsHeaders_def JSON_parse_member_stringify)

text \<open>
  One request for each kind of failure: a body that does not parse, a runtime without the
  key, an unknown action key, a provider that fails.
\<close>

theorem errors_caught_witness:
  "req_method landlord_request \<noteq> ''OPTIONS'' \<and> req_method bogus_request \<noteq> ''OPTIONS''
   \<and> fst (try_block sample_runtime (landlord_request\<lparr>json := Inl ''Unexpected end of JSON input''\<rparr>))
       = Inl (Rejected ''Unexpected end of JSON input'')
   \<and> status (returned (handler sample_runtime
        (landlord_request\<lparr>json := Inl ''Unexpected end of JSON input''\<rparr>))) = 500
   \<and> JSON_parse_member (body (returned (handler sample_runtime
        (landlord_request\<lparr>json := Inl ''Unexpected end of JSON input''\<rparr>)))) =
       Some (''error'', ''Unexpected end of JSON input'')
   \<and> fst (try_block (sample_runtime\<lparr>env_GOOGLE_AI_API_KEY := None\<rparr>) landlord_request)
       = Inl (Error ''Missing Google AI API Key'')
   \<and> status (returned (handler (sample_runtime\<lparr>env_GOOGLE_AI_API_KEY := None\<rparr>)
        landlord_request)) = 500
   \<and> JSON_parse_member (body (returned (handler
        (sample_runtime\<lparr>env_GOOGLE_AI_API_KEY := None\<rparr>) landlord_request))) =
       Some (''error'', ''Missing Google AI API Key'')
   \<and> fst (try_block sample_runtime bogus_request) = Inl (Error ''Unknown action key: bogus'')
   \<and> status (returned (handler sample_runtime bogus_request)) = 500
   \<and> JSON_parse_member (body (returned (handler sample_runtime bogus_request))) =
       Some (''error'', ''Unknown action key: bogus'')
   \<and> fst (try_block failing_provider_runtime landlord_request) = Inl (Rejected ''fetch failed'')
   \<and> status (returned (handler failing_provider_runtime landlord_request)) = 500
   \<and> JSON_parse_member (body (returned (handler failing_provider_runtime landlord_request))) =
       Some (''error'', ''fetch failed'')
   \<and> console_error (handler failing_provider_runtime landlord_request) =
       [[''Error in get-generated-content:'', ''fetch failed'']]"
proof -
  have a: "fst (try_block sample_runtime
      (landlord_request\<lparr>json := Inl ''Unexpected end of JSON input''\<rparr>))
       = Inl (Rejected ''Unexpected end of JSON input'')"
    by (simp add: try_block_def compose_def destructure_def)
  have b: "fst (try_block (sample_runtime\<lparr>env_GOOGLE_AI_API_KEY := None\<rparr>) landlord_request)
       = Inl (Error ''Missing Google AI API Key'')"
    by (simp add: try_block_def compose_def destructure_def landlord_request_def
        googleApiKey_def)
  have c: "fst (try_block sample_runtime bogus_request) = Inl (Error ''Unknown action key: bogus'')"
    by (simp add: try_block_def compose_def destructure_def bogus_request_def
        googleApiKey_def sample_runtime_def actionDescription_def)
  have d: "fst (try_block failing_provider_runtime landlord_request) = Inl (Rejected ''fetch failed'')"
    by (simp add: try_block_def compose_def destructure_def landlord_request_def
        googleApiKey_def sample_runtime_def failing_provider_runtime_def actionDescription_def
        message_line_def)
  have m: "req_method landlord_request \<noteq> ''OPTIONS''" "req_method bogus_request \<noteq> ''OPTIONS''"
    "req_method (landlord_request\<lparr>json := Inl ''Unexpected end of JSON input''\<rparr>) \<noteq> ''OPTIONS''"
    by (simp_all add: landlord_request_def bogus_request_def)
  show ?thesis
    using errors_caught[OF m(3) a] errors_caught[OF m(1) b] errors_caught[OF m(2) c]
      errors_caught[OF m(1) d] m(1,2) a b c d
    by (simp add: message_def JSON_parse_member_stringify)
qed

subsection \<open>The successful call\<close>

lemma handler_valid:
  assumes "req_method rq \<noteq> ''OPTIONS''"
    and "json rq = Inr v" and "v \<noteq> JUndefined" and "v \<noteq> JNull"
    and "env_GOOGLE_AI_API_KEY rt = Some key" and "key \<noteq> []"
    and "conversationText (number_to_string rt) (own_or_undefined v ''chatHistory'') = Inr c"
    and "actionDescription (number_to_string rt) (own_or_undefined v ''actionKey'') = Inr d"
  shows "try_block rt rq =
     (case generateContent rt key ''gemini-2.5-flash'' (prompt d c) of
        Inl m \<Rightarrow> Inl (Rejected m) | Inr t \<Rightarrow> Inr t,
      [(''gemini-2.5-flash'', prompt d c)])"
  using compose_valid[OF assms(2-8)] by (simp add: try_block_def split: sum.splits)

text \<open>
  C7. A call on the main path with a body that can be destructured, an actionKey of the
  table, the API key set, a transcript that builds and a provider that returns a text is
  answered with status 200, the two cross-origin headers and Content-Type:
  application/json, and a body that reads back as JSON with exactly one member, text,
  whose value is the text of the provider (so it is not empty when that text is not).
\<close>

theorem success_response:
  assumes "req_method rq \<noteq> ''OPTIONS''"
    and "json rq = Inr v" and "v \<noteq> JUndefined" and "v \<noteq> JNull"
    and "env_GOOGLE_AI_API_KEY rt = Some key" and "key \<noteq> []"
    and "conversationText (number_to_string rt) (own_or_undefined v ''chatHistory'') = Inr c"
    and "actionDescription (number_to_string rt) (own_or_undefined v ''actionKey'') = Inr d"
    and "generateContent rt key ''gemini-2.5-flash'' (prompt d c) = Inr generatedText"
  shows "returned (handler rt rq) =
           \<lparr>body = JSON_stringify ''text'' generatedText, status = 200,
            headers =
              [(''Access-Control-Allow-Origin'', ''*''),
               (''Access-Control-Allow-Headers'',
                ''authorization, x-client-info, apikey, content-type''),
               (''Content-Type'', ''application/json'')]\<rparr>
         \<and> JSON_parse_member (body (returned (handler rt rq))) = Some (''text'', generatedText)"
  using handler_valid[OF assms(1-8)] assms(1,9)
  by (simp add: handler_def Response_def lower_code_def corsHeaders_def JSON_parse_member_stringify)

text \<open>The first end-to-end scenario of the specification.\<close>

theorem success_response_witness:
  "req_method landlord_request \<noteq> ''OPTIONS''
   \<and> json landlord_request =
       Inr (JObj [(''actionKey'', JStr ''email_landlord''),
         (''chatHistory'',
          JArr [JObj [(''sender'', JStr ''user''),
                      (''text'', JStr ''My landlord won't fix the heating'')]])])
   \<and> env_GOOGLE_AI_API_KEY sample_runtime = Some ''sample-key''
   \<and> generateContent sample_runtime ''sample-key'' ''gemini-2.5-flash''
        (prompt ''Draft a polite but firm email to the landlord.''
           ''user: My landlord won't fix the heating'') = Inr ''Dear [Landlord Name],''
   \<and> status (returned (handler sample_runtime landlord_request)) = 200
   \<and> body (returned (handler sample_runtime landlord_request)) =
       ''{'' @ [CHR 0x22] @ ''text'' @ [CHR 0x22] @ '':'' @ [CHR 0x22]
        @ ''Dear [Landlord Name],'' @ [CHR 0x22] @ ''}''
   \<and> JSON_parse_member (body (returned (handler sample_runtime landlord_request))) =
       Some (''text'', ''Dear [Landlord Name],'')"
proof -
  have hyps:
    "req_method landlord_request \<noteq> ''OPTIONS''"
    "json landlord_request =
       Inr (JObj [(''actionKey'', JStr ''email_landlord''),
         (''chatHistory'',
          JArr [JObj [(''sender'', JStr ''user''),
                      (''text'', JStr ''My landlord won't fix the heating'')]])])"
    "env_GOOGLE_AI_API_KEY sample_runtime = Some ''sample-key''"
    "generateContent sample_runtime ''sample-key'' ''gemini-2.5-flash''
        (prompt ''Draft a polite but firm email to the landlord.''
           ''user: My landlord won't fix the heating'') = Inr ''Dear [Landlord Name],''"
    by (simp_all add: landlord_request_def sample_runtime_def)
  have r: "returned (handler sample_runtime landlord_request) =
           \<lparr>body = JSON_stringify ''text'' ''Dear [Landlord Name],'', status = 200,
            headers =
              [(''Access-Control-Allow-Origin'', ''*''),
               (''Access-Control-Allow-Headers'',
                ''authorization, x-client-info, apikey, content-type''),
               (''Content-Type'', ''application/json'')]\<rparr>"
    and p: "JSON_parse_member (body (returned (handler sample_runtime landlord_request))) =
       Some (''text'', ''Dear [Landlord Name],'')"
    using success_response[OF hyps(1,2) _ _ hyps(3) _ _ _ hyps(4)]
    by (simp_all add: message_line_def actionDescription_def JSON_parse_member_stringify)
  have b: "body (returned (handler sample_runtime landlord_request)) =
       ''{'' @ [CHR 0x22] @ ''text'' @ [CHR 0x22] @ '':'' @ [CHR 0x22]
        @ ''Dear [Landlord Name],'' @ [CHR 0x22] @ ''}''"
    by (simp add: r JSON_stringify_def QuoteJSONString_def escape_def)
  have s: "status (returned (handler sample_runtime landlord_request)) = 200"
    by (simp add: r)
  show ?thesis using hyps p b s by blast
qed

text \<open>
  C8. For such a request the provider is called once, with the model identifier and one
  prompt string. The prompt contains the persona sentence, the line "Action Required: "
  with the instruction resolved from the actionKey, the transcript under
  "Conversation History:", and the four numbered instructions: review the entire
  conversation, a professional and appropriate tone, placeholders like "[Your Name]" or
  "[Date]", return only the generated text.
\<close>

theorem prompt_contents:
  assumes "req_method rq \<noteq> ''OPTIONS''"
    and "json rq = Inr v" and "v \<noteq> JUndefined" and "v \<noteq> JNull"
    and "env_GOOGLE_AI_API_KEY rt = Some key" and "key \<noteq> []"
    and "conversationText (number_to_string rt) (own_or_undefined v ''chatHistory'') = Inr c"
    and "actionDescription (number_to_string rt) (own_or_undefined v ''actionKey'') = Inr d"
  shows "generate_calls (handler rt rq) = [(''gemini-2.5-flash'', prompt d c)]
    \<and> sublist ''You are an expert AI assistant providing drafting support to UK tenants.''
        (prompt d c)
    \<and> sublist (''Action Required: '' @ d @ ''\<newline>'') (prompt d c)
    \<and> sublist (''Conversation History:\<newline>      '' @ c @ ''\<newline>'') (prompt d c)
    \<and> sublist ''1. Review the entire conversation to understand the user's specific problem.''
        (prompt d c)
    \<and> sublist ''2. Generate the requested document with a professional and appropriate tone.''
        (prompt d c)
    \<and> sublist (''3. Use placeholders like '' @ [CHR 0x22] @ ''[Your Name]'' @ [CHR 0x22]
          @ '' or '' @ [CHR 0x22] @ ''[Date]'' @ [CHR 0x22] @ '' where needed.'') (prompt d c)
    \<and> sublist ''4. IMPORTANT: Return ONLY the generated text. Do not add any conversational intros or summaries.''
        (prompt d c)"
proof -
  define P where "P = ''You are an expert AI assistant providing drafting support to UK tenants.''"
  define I1 where
    "I1 = ''1. Review the entire conversation to understand the user's specific problem.''"
  define I2 where
    "I2 = ''2. Generate the requested document with a professional and appropriate tone.''"
  define I3 where
    "I3 = ''3. Use placeholders like '' @ [CHR 0x22] @ ''[Your Name]'' @ [CHR 0x22]
          @ '' or '' @ [CHR 0x22] @ ''[Date]'' @ [CHR 0x22] @ '' where needed.''"
  define I4 where
    "I4 = ''4. IMPORTANT: Return ONLY the generated text. Do not add any conversational intros or summaries.''"
  define R where "R = ''Action Required: '' @ d @ ''\<newline>''"
  define H where "H = ''Conversation History:\<newline>      '' @ c @ ''\<newline>''"
  define A where "A = ''\<newline>      ''"
  define B where
    "B = ''\<newline>      Based on the following conversation history, your task is to generate a specific document.\<newline>\<newline>      ''"
  define C where "C = ''\<newline>      Instructions:\<newline>      ''"
  define T where "T = ''\<newline>    ''"
  have parts: "prompt d c = A @ P @ B @ R @ A @ H @ C @ I1 @ A @ I2 @ A @ I3 @ A @ I4 @ T"
    by (simp add: prompt_def A_def P_def B_def R_def H_def C_def I1_def I2_def I3_def I4_def
        T_def)
  have calls: "generate_calls (handler rt rq) = [(''gemini-2.5-flash'', prompt d c)]"
    using handler_valid[OF assms] assms(1)
    by (simp add: handler_def caught_def split: sum.splits)
  have "sublist P (prompt d c)"
    unfolding parts by (rule sublist_appendI)
  moreover have "sublist R (prompt d c)"
    unfolding parts by (rule sublistI[where ps = "A @ P @ B"]) simp
  moreover have "sublist H (prompt d c)"
    unfolding parts by (rule sublistI[where ps = "A @ P @ B @ R @ A"]) simp
  moreover have "sublist I1 (prompt d c)"
    unfolding parts by (rule sublistI[where ps = "A @ P @ B @ R @ A @ H @ C"]) simp
  moreover have "sublist I2 (prompt d c)"
    unfolding parts by (rule sublistI[where ps = "A @ P @ B @ R @ A @ H @ C @ I1 @ A"]) simp
  moreover have "sublist I3 (prompt d c)"
    unfolding parts
    by (rule sublistI[where ps = "A @ P @ B @ R @ A @ H @ C @ I1 @ A @ I2 @ A"]) simp
  moreover have "sublist I4 (prompt d c)"
    unfolding parts
    by (rule sublistI[where ps = "A @ P @ B @ R @ A @ H @ C @ I1 @ A @ I2 @ A @ I3 @ A"]) simp
  ultimately show ?thesis
    using calls unfolding P_def R_def H_def I1_def I2_def I3_def I4_def by blast
qed

theorem prompt_contents_witness:
  "req_method landlord_request \<noteq> ''OPTIONS''
   \<and> json landlord_request =
       Inr (JObj [(''actionKey'', JStr ''email_landlord''),
         (''chatHistory'',
          JArr [JObj [(''sender'', JStr ''user''),
                      (''text'', JStr ''My landlord won't fix the heating'')]])])
   \<and> env_GOOGLE_AI_API_KEY sample_runtime = Some ''sample-key''
   \<and> generate_calls (handler sample_runtime landlord_request) =
       [(''gemini-2.5-flash'',
         prompt ''Draft a polite but firm email to the landlord.''
           ''user: My landlord won't fix the heating'')]
   \<and> sublist (''Action Required: '' @ ''Draft a polite but firm email to the landlord.''
         @ ''\<newline>'')
       (prompt ''Draft a polite but firm email to the landlord.''
           ''user: My landlord won't fix the heating'')
   \<and> sublist (''Conversation History:\<newline>      ''
         @ ''user: My landlord won't fix the heating'' @ ''\<newline>'')
       (prompt ''Draft a polite but firm email to the landlord.''
           ''user: My landlord won't fix the heating'')"
proof -
  have hyps:
    "req_method landlord_request \<noteq> ''OPTIONS''"
    "json landlord_request =
       Inr (JObj [(''actionKey'', JStr ''email_landlord''),
         (''chatHistory'',
          JArr [JObj [(''sender'', JStr ''user''),
                      (''text'', JStr ''My landlord won't fix the heating'')]])])"
    "env_GOOGLE_AI_API_KEY sample_runtime = Some ''sample-key''"
    by (simp_all add: landlord_request_def sample_runtime_def)
  have "generate_calls (handler sample_runtime landlord_request) =
       [(''gemini-2.5-flash'',
         prompt ''Draft a polite but firm email to the landlord.''
           ''user: My landlord won't fix the heating'')]
   \<and> sublist (''Action Required: '' @ ''Draft a polite but firm email to the landlord.''
         @ ''\<newline>'')
       (prompt ''Draft a polite but firm email to the landlord.''
           ''user: My landlord won't fix the heating'')
   \<and> sublist (''Conversation History:\<newline>      ''
         @ ''user: My landlord won't fix the heating'' @ ''\<newline>'')
       (prompt ''Draft a polite but firm email to the landlord.''
           ''user: My landlord won't fix the heating'')"
    using prompt_contents[OF hyps(1,2) _ _ hyps(3), of
        "''user: My landlord won't fix the heating''"
        "''Draft a polite but firm email to the landlord.''"]
    by (simp add: message_line_def actionDescription_def)
  then show ?thesis using hyps by blast
qed

subsection \<open>An actionKey that is no string\<close>

lemma actionDescription_not_string:
  assumes "actionKey \<notin> range JStr"
  shows "actionDescription ns actionKey =
     (case ToString ns actionKey of
        Inl f \<Rightarrow> Inl (TypeError f)
      | Inr s \<Rightarrow> Inl (Error (''Unknown action key: '' @ s)))"
proof -
  have "actionKey \<noteq> JStr s" for s
    using assms by blast
  then show ?thesis
    by (simp add: actionDescription_def)
qed

text \<open>
  C9, as stated: whenever the body lacks actionKey or carries one that is no string, the
  error message is "Unknown action key: " followed by the coercion of the value. It
  fails for an actionKey that cannot be coerced: for the body
  \<^verbatim>\<open>{"actionKey":{"toString":null},"chatHistory":[]}\<close> the template literal of the
  default branch throws a type error, and the message of the response is the engine's.
\<close>

theorem uncoercible_action_key:
  "req_method \<lparr>req_method = ''POST'',
      json = Inr (JObj [(''actionKey'', JObj [(''toString'', JNull :: unit jsval)]),
                        (''chatHistory'', JArr [])])\<rparr> \<noteq> ''OPTIONS''
   \<and> own_or_undefined (JObj [(''actionKey'', JObj [(''toString'', JNull :: unit jsval)]),
                        (''chatHistory'', JArr [])]) ''actionKey''
       = JObj [(''toString'', JNull)]
   \<and> env_GOOGLE_AI_API_KEY sample_runtime = Some ''sample-key''
   \<and> conversationText (number_to_string sample_runtime) (JArr []) = Inr []
   \<and> status (returned (handler sample_runtime
        \<lparr>req_method = ''POST'',
         json = Inr (JObj [(''actionKey'', JObj [(''toString'', JNull)]),
                           (''chatHistory'', JArr [])])\<rparr>)) = 500
   \<and> JSON_parse_member (body (returned (handler sample_runtime
        \<lparr>req_method = ''POST'',
         json = Inr (JObj [(''actionKey'', JObj [(''toString'', JNull)]),
                           (''chatHistory'', JArr [])])\<rparr>))) =
       Some (''error'', ''Cannot convert object to primitive value'')
   \<and> \<not> prefix ''Unknown action key: '' ''Cannot convert object to primitive value''"
  by (simp add: handler_def try_block_def compose_def destructure_def googleApiKey_def
      sample_runtime_def actionDescription_def caught_def Response_json message_def
      JSON_parse_member_stringify)

text \<open>
  C9, amended. On the main path, with the API key set and a transcript that builds, a
  body that lacks actionKey or carries one that is no string, and whose value can be
  coerced to a string, is answered with status 500 and the error message
  "Unknown action key: " followed by that coercion ("undefined" when the field is
  absent).
\<close>

theorem non_string_action_key:
  assumes "req_method rq \<noteq> ''OPTIONS''"
    and "json rq = Inr v" and "v \<noteq> JUndefined" and "v \<noteq> JNull"
    and "own_or_undefined v ''actionKey'' \<notin> range JStr"
    and "ToString (number_to_string rt) (own_or_undefined v ''actionKey'') = Inr s"
    and "env_GOOGLE_AI_API_KEY rt = Some key" and "key \<noteq> []"
    and "conversationText (number_to_string rt) (own_or_undefined v ''chatHistory'') = Inr c"
  shows "returned (handler rt rq) =
           \<lparr>body = JSON_stringify ''error'' (''Unknown action key: '' @ s), status = 500,
            headers = corsHeaders @ [(''Content-Type'', ''application/json'')]\<rparr>
         \<and> JSON_parse_member (body (returned (handler rt rq))) =
             Some (''error'', ''Unknown action key: '' @ s)"
proof -
  have "actionDescription (number_to_string rt) (own_or_undefined v ''actionKey'') =
      Inl (Error (''Unknown action key: '' @ s))"
    using actionDescription_not_string[OF assms(5)] assms(6) by simp
  then have "compose rt rq = Inl (Error (''Unknown action key: '' @ s))"
    using compose_action_fails[OF assms(2,3,4,7,8,9)] by simp
  then have "handler rt rq = caught rt (Error (''Unknown action key: '' @ s)) []"
    using handler_caught[OF assms(1)] by simp
  then show ?thesis
    by (simp add: returned_caught message_def JSON_parse_member_stringify)
qed

theorem non_string_action_key_witness:
  "req_method (bogus_request\<lparr>json := Inr (JObj [(''chatHistory'', JArr [])])\<rparr>) \<noteq> ''OPTIONS''
   \<and> own_or_undefined (JObj [(''chatHistory'', JArr [])] :: unit jsval) ''actionKey''
       = JUndefined
   \<and> JUndefined \<notin> range (JStr :: string \<Rightarrow> unit jsval)
   \<and> ToString (number_to_string sample_runtime) JUndefined = Inr ''undefined''
   \<and> env_GOOGLE_AI_API_KEY sample_runtime = Some ''sample-key''
   \<and> conversationText (number_to_string sample_runtime) (JArr []) = Inr []
   \<and> status (returned (handler sample_runtime
        (bogus_request\<lparr>json := Inr (JObj [(''chatHistory'', JArr [])])\<rparr>))) = 500
   \<and> JSON_parse_member (body (returned (handler sample_runtime
        (bogus_request\<lparr>json := Inr (JObj [(''chatHistory'', JArr [])])\<rparr>)))) =
       Some (''error'', ''Unknown action key: undefined'')"
proof -
  have hyps:
    "req_method (bogus_request\<lparr>json := Inr (JObj [(''chatHistory'', JArr [])])\<rparr>) \<noteq> ''OPTIONS''"
    "json (bogus_request\<lparr>json := Inr (JObj [(''chatHistory'', JArr [])])\<rparr>)
       = Inr (JObj [(''chatHistory'', JArr [])])"
    "own_or_undefined (JObj [(''chatHistory'', JArr [])] :: unit jsval) ''actionKey''
       = JUndefined"
    "JUndefined \<notin> range (JStr :: string \<Rightarrow> unit jsval)"
    "ToString (number_to_string sample_runtime) JUndefined = Inr ''undefined''"
    "env_GOOGLE_AI_API_KEY sample_runtime = Some ''sample-key''"
    "conversationText (number_to_string sample_runtime) (JArr []) = Inr []"
    by (auto simp: bogus_request_def sample_runtime_def)
  have "returned (handler sample_runtime
        (bogus_request\<lparr>json := Inr (JObj [(''chatHistory'', JArr [])])\<rparr>)) =
           \<lparr>body = JSON_stringify ''error'' (''Unknown action key: '' @ ''undefined''),
            status = 500,
            headers = corsHeaders @ [(''Content-Type'', ''application/json'')]\<rparr>
         \<and> JSON_parse_member (body (returned (handler sample_runtime
        (bogus_request\<lparr>json := Inr (JObj [(''chatHistory'', JArr [])])\<rparr>)))) =
             Some (''error'', ''Unknown action key: '' @ ''undefined'')"
    using hyps(3-7)
    by (intro non_string_action_key[where rt = sample_runtime and s = "''undefined''"
          and key = "''sample-key''" and c = "[]", OF hyps(1,2)])
      simp_all
  then show ?thesis using hyps by (simp add: JSON_parse_member_stringify)
qed

subsection \<open>The order of the checks\<close>

text \<open>
  C10. The API key is checked before the transcript is built and before the actionKey is
  resolved: when the key is not configured, a request on the main path whose body can be
  destructured gets the missing-key message and the provider is not called, even when
  its actionKey is unknown or its chatHistory is one on which building the transcript
  would throw. An empty chatHistory array is accepted: its transcript is the empty
  string, and with the key set and an actionKey of the table the try block reaches the
  provider, which is called with the prompt built from the empty transcript.
\<close>

theorem key_checked_first:
  assumes "req_method rq \<noteq> ''OPTIONS''"
    and "json rq = Inr v" and "v \<noteq> JUndefined" and "v \<noteq> JNull"
  shows "(env_GOOGLE_AI_API_KEY rt = None \<or> env_GOOGLE_AI_API_KEY rt = Some [] \<longrightarrow>
            fst (try_block rt rq) = Inl (Error ''Missing Google AI API Key'')
            \<and> status (returned (handler rt rq)) = 500
            \<and> JSON_parse_member (body (returned (handler rt rq))) =
                Some (''error'', ''Missing Google AI API Key'')
            \<and> generate_calls (handler rt rq) = [])
     \<and> conversationText (number_to_string rt) (JArr []) = Inr []
     \<and> (env_GOOGLE_AI_API_KEY rt = Some key \<and> key \<noteq> []
          \<and> own_or_undefined v ''chatHistory'' = JArr []
          \<and> actionDescription (number_to_string rt) (own_or_undefined v ''actionKey'') = Inr d
          \<longrightarrow> compose rt rq = Inr (key, prompt d [])
            \<and> generate_calls (handler rt rq) = [(''gemini-2.5-flash'', prompt d [])])"
proof (intro conjI impI)
  assume absent: "env_GOOGLE_AI_API_KEY rt = None \<or> env_GOOGLE_AI_API_KEY rt = Some []"
  have c: "compose rt rq = Inl (Error ''Missing Google AI API Key'')"
    by (rule compose_key_absent[OF assms(2-4) absent])
  then show "fst (try_block rt rq) = Inl (Error ''Missing Google AI API Key'')"
    by (simp add: try_block_def)
  have h: "handler rt rq = caught rt (Error ''Missing Google AI API Key'') []"
    by (rule handler_caught[OF assms(1) c])
  show "status (returned (handler rt rq)) = 500"
    by (simp add: h returned_caught)
  show "JSON_parse_member (body (returned (handler rt rq))) =
      Some (''error'', ''Missing Google AI API Key'')"
    by (simp add: h returned_caught message_def JSON_parse_member_stringify)
  show "generate_calls (handler rt rq) = []"
    by (simp add: h caught_def)
next
  show "conversationText (number_to_string rt) (JArr []) = Inr []"
    by simp
next
  assume a: "env_GOOGLE_AI_API_KEY rt = Some key \<and> key \<noteq> []
          \<and> own_or_undefined v ''chatHistory'' = JArr []
          \<and> actionDescription (number_to_string rt) (own_or_undefined v ''actionKey'') = Inr d"
  then have t: "conversationText (number_to_string rt) (own_or_undefined v ''chatHistory'')
      = Inr []"
    by simp
  from a have k: "env_GOOGLE_AI_API_KEY rt = Some key" "key \<noteq> []"
    and d: "actionDescription (number_to_string rt) (own_or_undefined v ''actionKey'') = Inr d"
    by simp_all
  show "compose rt rq = Inr (key, prompt d [])"
    by (rule compose_valid[OF assms(2-4) k t d])
  show "generate_calls (handler rt rq) = [(''gemini-2.5-flash'', prompt d [])]"
    using handler_valid[OF assms k t d] assms(1)
    by (simp add: handler_def caught_def split: sum.splits)
qed

text \<open>
  A request with an unknown actionKey and \<^verbatim>\<open>chatHistory: null\<close> in a runtime without the
  key, and a request with an empty chatHistory in a runtime with the key.
\<close>

theorem key_checked_first_witness:
  "req_method (bogus_request\<lparr>json :=
       Inr (JObj [(''actionKey'', JStr ''bogus''), (''chatHistory'', JNull)])\<rparr>) \<noteq> ''OPTIONS''
   \<and> env_GOOGLE_AI_API_KEY (sample_runtime\<lparr>env_GOOGLE_AI_API_KEY := None\<rparr>) = None
   \<and> actionDescription (number_to_string sample_runtime) (JStr ''bogus'') =
       Inl (Error ''Unknown action key: bogus'')
   \<and> conversationText (number_to_string sample_runtime) JNull =
       Inl (TypeError (CannotReadProperty OfNull ''map''))
   \<and> status (returned (handler (sample_runtime\<lparr>env_GOOGLE_AI_API_KEY := None\<rparr>)
        (bogus_request\<lparr>json :=
          Inr (JObj [(''actionKey'', JStr ''bogus''), (''chatHistory'', JNull)])\<rparr>))) = 500
   \<and> JSON_parse_member (body (returned (handler
        (sample_runtime\<lparr>env_GOOGLE_AI_API_KEY := None\<rparr>)
        (bogus_request\<lparr>json :=
          Inr (JObj [(''actionKey'', JStr ''bogus''), (''chatHistory'', JNull)])\<rparr>)))) =
       Some (''error'', ''Missing Google AI API Key'')
   \<and> req_method (landlord_request\<lparr>json :=
       Inr (JObj [(''actionKey'', JStr ''email_landlord''), (''chatHistory'', JArr [])])\<rparr>)
       \<noteq> ''OPTIONS''
   \<and> env_GOOGLE_AI_API_KEY sample_runtime = Some ''sample-key''
   \<and> generate_calls (handler sample_runtime (landlord_request\<lparr>json :=
       Inr (JObj [(''actionKey'', JStr ''email_landlord''), (''chatHistory'', JArr [])])\<rparr>)) =
       [(''gemini-2.5-flash'', prompt ''Draft a polite but firm email to the landlord.'' [])]"
proof -
  have m: "req_method (bogus_request\<lparr>json :=
       Inr (JObj [(''actionKey'', JStr ''bogus''), (''chatHistory'', JNull)])\<rparr>) \<noteq> ''OPTIONS''"
    "req_method (landlord_request\<lparr>json :=
       Inr (JObj [(''actionKey'', JStr ''email_landlord''), (''chatHistory'', JArr [])])\<rparr>)
       \<noteq> ''OPTIONS''"
    by (simp_all add: bogus_request_def landlord_request_def)
  have e: "env_GOOGLE_AI_API_KEY (sample_runtime\<lparr>env_GOOGLE_AI_API_KEY := None\<rparr>) = None"
    "env_GOOGLE_AI_API_KEY sample_runtime = Some ''sample-key''"
    by (simp_all add: sample_runtime_def)
  have f: "actionDescription (number_to_string sample_runtime) (JStr ''bogus'') =
       Inl (Error ''Unknown action key: bogus'')"
    "conversationText (number_to_string sample_runtime) JNull =
       Inl (TypeError (CannotReadProperty OfNull ''map''))"
    by (simp_all add: actionDescription_def)
  have absent: "status (returned (handler (sample_runtime\<lparr>env_GOOGLE_AI_API_KEY := None\<rparr>)
        (bogus_request\<lparr>json :=
          Inr (JObj [(''actionKey'', JStr ''bogus''), (''chatHistory'', JNull)])\<rparr>))) = 500
   \<and> JSON_parse_member (body (returned (handler
        (sample_runtime\<lparr>env_GOOGLE_AI_API_KEY := None\<rparr>)
        (bogus_request\<lparr>json :=
          Inr (JObj [(''actionKey'', JStr ''bogus''), (''chatHistory'', JNull)])\<rparr>)))) =
       Some (''error'', ''Missing Google AI API Key'')"
    using key_checked_first[OF m(1), where
        v = "JObj [(''actionKey'', JStr ''bogus''), (''chatHistory'', JNull)]"
        and rt = "sample_runtime\<lparr>env_GOOGLE_AI_API_KEY := None\<rparr>"] e(1)
    by simp
  have present: "generate_calls (handler sample_runtime (landlord_request\<lparr>json :=
       Inr (JObj [(''actionKey'', JStr ''email_landlord''), (''chatHistory'', JArr [])])\<rparr>)) =
       [(''gemini-2.5-flash'', prompt ''Draft a polite but firm email to the landlord.'' [])]"
    using key_checked_first[OF m(2), where
        v = "JObj [(''actionKey'', JStr ''email_landlord''), (''chatHistory'', JArr [])]"
        and rt = sample_runtime and key = "''sample-key''"
        and d = "''Draft a polite but firm email to the landlord.''"] e(2)
    by (simp add: actionDescription_def)
  show ?thesis using m e f absent present by blast
qed

end
